theory Spec2Isabelle
  imports Complex_Main "HOL-Library.Sublist" "HOL-Library.Multiset"
begin

section \<open>Data model of tools/rank.py\<close>

text \<open>
  A candidate is the dictionary built by \<open>fetch_github_repositories\<close> (rank.py, lines
  155-162), the only place where candidates are created: the six keys written there are
  always present, the keys written by later stages are optional until their stage has
  run. Star and issue counts come from the hosting service and are never negative.
  Scores are Python floats; they are modelled as real numbers, so rounding, infinities
  and NaN are outside the model.
\<close>

record repo =
  title :: string
  link :: string
  combined_doc :: string
  stars :: nat
  full_name :: string
  open_issues_count :: nat
  semantic_similarity :: "real option"
  cross_encoder_score :: "real option"
  pr_count :: "nat option"
  latest_commit_days :: "int option"
  activity_score :: "real option"
  final_score :: "real option"

text \<open>The resolved \<open>AgentConfiguration\<close> (lines 57-66), passed to every stage.\<close>

record agent_configuration =
  max_results :: int
  per_page :: int
  dense_retrieval_k :: int
  cross_encoder_top_n :: int
  min_stars :: int
  cross_encoder_threshold :: real
  sem_model_name :: string
  cross_encoder_model_name :: string

text \<open>The exceptions that the stages raise or let through.\<close>

datatype error =
    ValueError | KeyError | IndexError | AssertionError | RequestException | JSONDecodeError

text \<open>Sequencing: an exception raised by a step ends the computation.\<close>

definition bind_err :: "error + 'a \<Rightarrow> ('a \<Rightarrow> error + 'b) \<Rightarrow> error + 'b" where
  "bind_err m f = (case m of Inl e \<Rightarrow> Inl e | Inr x \<Rightarrow> f x)"

text \<open>\<open>d.get(key, default)\<close> on an optional key.\<close>

definition get_or :: "'a option \<Rightarrow> 'a \<Rightarrow> 'a" where
  "get_or v dflt = (case v of None \<Rightarrow> dflt | Some x \<Rightarrow> x)"

section \<open>Node 4: filter_candidates\<close>

text \<open>
  The loop of lines 240-244: \<open>filtered\<close> starts empty, a candidate with few stars and a
  low cross-encoder score is skipped (\<open>continue\<close>), every other one is appended.
\<close>

fun filter_loop :: "agent_configuration \<Rightarrow> repo list \<Rightarrow> repo list \<Rightarrow> repo list" where
  "filter_loop cfg [] filtered = filtered"
| "filter_loop cfg (r # rest) filtered =
     (if int (stars r) < min_stars cfg
         \<and> get_or (cross_encoder_score r) 0 < cross_encoder_threshold cfg
      then filter_loop cfg rest filtered
      else filter_loop cfg rest (filtered @ [r]))"

text \<open>Lines 245-247: an empty \<open>filtered\<close> is replaced by the input list.\<close>

definition filter_candidates :: "agent_configuration \<Rightarrow> repo list \<Rightarrow> repo list" where
  "filter_candidates cfg reranked_candidates =
     (let filtered = filter_loop cfg reranked_candidates []
      in if filtered = [] then reranked_candidates else filtered)"

section \<open>Node 6: the signal normalizer\<close>

text \<open>The nested function \<open>normalize\<close> of lines 301-304.\<close>

definition normalize_score :: "real \<Rightarrow> real \<Rightarrow> real \<Rightarrow> real" where
  "normalize_score val min_val max_val =
     (if max_val - min_val = 0 then 0.5 else (val - min_val) / (max_val - min_val))"

section \<open>External collaborators\<close>

text \<open>
  The embedding model, the similarity index, the cross-encoder and the hosting service's
  HTTP interface are third-party code. Each stage takes them as parameters and records,
  in the order of the source, which of their entry points it calls.
\<close>

datatype call =
    SentenceTransformer_init string
  | Encode "string list"
  | Index_search int
  | CrossEncoder_init string
  | Predict "(string \<times> string) list"
  | Get_pulls string
  | Get_commits string

type_synonym vec = "real list"

text \<open>
  An HTTP response: its status code, and what calling \<open>.json()\<close> on it gives, the decoded
  body or the exception raised for a body that is not JSON.
\<close>

datatype 'a response = Response (status_code: int) (json: "error + 'a")

section \<open>Node 2: dense_retrieval\<close>

text \<open>Lines 190-192: every row is divided by its Euclidean norm plus \<open>1e-10\<close>.\<close>

definition normalize_embeddings :: "vec list \<Rightarrow> vec list" where
  "normalize_embeddings embeddings =
     map (\<lambda>v. map (\<lambda>x. x / (sqrt (\<Sum>y\<leftarrow>v. y * y) + 1 / 10 ^ 10)) v) embeddings"

text \<open>
  Lines 208-209: each hit \<open>(idx, score)\<close> of the index search writes the score into
  \<open>state.repositories[idx]\<close>; an index outside the list raises.
\<close>

fun annotate :: "repo list \<Rightarrow> (nat \<times> real) list \<Rightarrow> error + repo list" where
  "annotate repositories [] = Inr repositories"
| "annotate repositories ((idx, score) # hits) =
     (if idx < length repositories
      then annotate
             (repositories[idx := (repositories ! idx)\<lparr>semantic_similarity := Some score\<rparr>])
             hits
      else Inl IndexError)"

text \<open>
  \<open>sorted(xs, key=..., reverse=True)\<close>: descending by key, and stable (elements with
  equal keys keep their order), which is a stable ascending sort on the negated key.
\<close>

definition sorted_reverse :: "('a \<Rightarrow> real) \<Rightarrow> 'a list \<Rightarrow> 'a list" where
  "sorted_reverse key xs = sort_key (\<lambda>x. - key x) xs"

text \<open>
  Lines 173-215. \<open>encode\<close> is \<open>sem_model.encode\<close> on a list of texts, \<open>search xb q k\<close>
  is \<open>index.add(xb)\<close> followed by \<open>index.search(q, k)\<close>, giving the pairs of
  \<open>zip(I[0], D[0])\<close>. The search is called with \<open>k\<close> unguarded (line 206), and the
  index asserts \<open>k > 0\<close> before it searches.
\<close>

definition dense_retrieval ::
  "agent_configuration \<Rightarrow> (string list \<Rightarrow> vec list) \<Rightarrow> (vec list \<Rightarrow> vec \<Rightarrow> nat \<Rightarrow> (nat \<times> real) list)
     \<Rightarrow> string \<Rightarrow> repo list \<Rightarrow> call list \<times> (error + repo list)" where
  "dense_retrieval cfg encode search user_query repositories =
     (let docs = map combined_doc repositories
      in if docs = [] then ([SentenceTransformer_init (sem_model_name cfg)], Inr [])
         else
           let doc_embeddings = normalize_embeddings (encode docs);
               calls = [SentenceTransformer_init (sem_model_name cfg), Encode docs,
                        Encode [user_query]]
           in case normalize_embeddings (encode [user_query]) of
                [] \<Rightarrow> (calls, Inl IndexError)
              | query_embedding # _ \<Rightarrow>
                  let k = min (dense_retrieval_k cfg) (int (length doc_embeddings))
                  in (calls @ [Index_search k],
                      if k \<le> 0 then Inl AssertionError
                      else case annotate repositories
                                  (search doc_embeddings query_embedding (nat k)) of
                             Inl e \<Rightarrow> Inl e
                           | Inr annotated \<Rightarrow>
                               Inr (sorted_reverse
                                      (\<lambda>x. get_or (semantic_similarity x) 0) annotated)))"

section \<open>Node 3: cross_encoder_rerank\<close>

text \<open>Lines 228-229: \<open>zip\<close> stops at the shorter of the two lists.\<close>

fun assign_scores :: "repo list \<Rightarrow> real list \<Rightarrow> repo list" where
  "assign_scores (candidate # candidates) (score # scores) =
     candidate\<lparr>cross_encoder_score := Some score\<rparr> # assign_scores candidates scores"
| "assign_scores candidates [] = candidates"
| "assign_scores [] scores = []"

text \<open>The slice \<open>xs[:n]\<close>; a negative \<open>n\<close> counts from the end.\<close>

definition slice_to :: "'a list \<Rightarrow> int \<Rightarrow> 'a list" where
  "slice_to xs n = (if 0 \<le> n then take (nat n) xs else take (length xs - nat (- n)) xs)"

text \<open>
  Line 230: the sort key \<open>x["cross_encoder_score"]\<close> raises for a candidate without
  that key.
\<close>

definition sorted_by_cross_encoder_score :: "repo list \<Rightarrow> error + repo list" where
  "sorted_by_cross_encoder_score candidates =
     (if list_all (\<lambda>x. cross_encoder_score x \<noteq> None) candidates
      then Inr (sorted_reverse (\<lambda>x. the (cross_encoder_score x)) candidates)
      else Inl KeyError)"

definition cross_encoder_rerank_func ::
  "((string \<times> string) list \<Rightarrow> real list) \<Rightarrow> string \<Rightarrow> repo list \<Rightarrow> int
     \<Rightarrow> call list \<times> (error + repo list)" where
  "cross_encoder_rerank_func predict query candidates top_n =
     (let pairs = map (\<lambda>candidate. (query, combined_doc candidate)) candidates;
          scores = predict pairs
      in ([Predict pairs],
          case sorted_by_cross_encoder_score (assign_scores candidates scores) of
            Inl e \<Rightarrow> Inl e
          | Inr ranked \<Rightarrow> Inr (slice_to ranked top_n)))"

text \<open>Lines 220-233.\<close>

definition cross_encoder_rerank ::
  "agent_configuration \<Rightarrow> ((string \<times> string) list \<Rightarrow> real list) \<Rightarrow> string \<Rightarrow> repo list
     \<Rightarrow> call list \<times> (error + repo list)" where
  "cross_encoder_rerank cfg predict user_query semantic_ranked =
     (let candidates_for_rerank = take 100 semantic_ranked;
          (calls, reranked) = cross_encoder_rerank_func predict user_query
                                candidates_for_rerank (cross_encoder_top_n cfg)
      in (CrossEncoder_init (cross_encoder_model_name cfg) # calls, reranked))"

section \<open>Node 5: analyze_activity\<close>

text \<open>
  What the outside world does while one candidate is analysed. Each of the two
  \<open>requests.get\<close> calls either raises (a connection error, a timeout) or answers with a
  response; the body of the pull-request listing is a JSON list, here of pull-request
  numbers; the body of the commit listing is a JSON list of commits, each given by what
  reading and parsing its committer date yields, an instant or the exception raised for a
  missing or malformed date. Instants are integers, in microseconds, the resolution of
  \<open>datetime\<close>. The last field is the reading of the UTC clock.
\<close>

record activity_env =
  pr_response :: "error + nat list response"
  commits_response :: "error + (error + int) list response"
  utcnow :: int

text \<open>The dictionary returned at line 281.\<close>

record activity_data =
  new_pr_count :: nat
  new_latest_commit_days :: int
  new_activity_score :: real

text \<open>\<open>timedelta.days\<close>: whole days, rounded towards minus infinity.\<close>

definition timedelta_days :: "int \<Rightarrow> int" where
  "timedelta_days microseconds = microseconds div (86400 * 1000000)"

text \<open>Line 264: \<open>len(pr_response.json()) if pr_response.status_code == 200 else 0\<close>.\<close>

definition pr_count_of :: "nat list response \<Rightarrow> error + nat" where
  "pr_count_of pr =
     (if status_code pr = 200 then bind_err (json pr) (\<lambda>pulls. Inr (length pulls)) else Inr 0)"

text \<open>Lines 268-277: the age in days of the first listed commit, or 999.\<close>

definition days_diff_of :: "(error + int) list response \<Rightarrow> int \<Rightarrow> error + int" where
  "days_diff_of cr now =
     (if status_code cr = 200
      then bind_err (json cr) (\<lambda>commit_data.
             case commit_data of
               [] \<Rightarrow> Inr 999
             | first # _ \<Rightarrow>
                 bind_err first (\<lambda>commit_date. Inr (timedelta_days (now - commit_date))))
      else Inr 999)"

text \<open>
  Lines 259-281. Nothing in the function catches an exception: one raised by a request,
  by \<open>.json()\<close> or by the date parsing leaves the function, and the calls that would have
  followed are not made.
\<close>

definition analyze_repository_activity ::
  "repo \<Rightarrow> activity_env \<Rightarrow> call list \<times> (error + activity_data)" where
  "analyze_repository_activity r env =
     (case bind_err (pr_response env) pr_count_of of
        Inl e \<Rightarrow> ([Get_pulls (full_name r)], Inl e)
      | Inr pr_cnt \<Rightarrow>
          ([Get_pulls (full_name r), Get_commits (full_name r)],
           bind_err (commits_response env) (\<lambda>cr.
           bind_err (days_diff_of cr (utcnow env)) (\<lambda>days_diff.
             let open_issues = open_issues_count r;
                 non_pr_issues = max 0 (int open_issues - int pr_cnt);
                 score = real_of_int (3 * int pr_cnt + non_pr_issues)
                         - real_of_int days_diff / 30
             in Inr \<lparr>new_pr_count = pr_cnt, new_latest_commit_days = days_diff,
                     new_activity_score = score\<rparr>))))"

text \<open>\<open>repo.update(activity_data)\<close>, line 285.\<close>

definition update_activity :: "repo \<Rightarrow> activity_data \<Rightarrow> repo" where
  "update_activity r d =
     r\<lparr>pr_count := Some (new_pr_count d),
       latest_commit_days := Some (new_latest_commit_days d),
       activity_score := Some (new_activity_score d)\<rparr>"

text \<open>
  Lines 283-287: the loop over \<open>state.filtered_candidates\<close>, which updates the
  candidates in place; \<open>world\<close> gives what happens while the candidate of a given full
  name is analysed. The result is the calls made, the candidate list as the stage leaves
  it, and the exception that ended the stage, if one did: the candidates before the one
  whose analysis raised are updated, that one and the ones after it are untouched.
\<close>

fun analyze_activity ::
  "(string \<Rightarrow> activity_env) \<Rightarrow> repo list \<Rightarrow> call list \<times> repo list \<times> error option" where
  "analyze_activity world [] = ([], [], None)"
| "analyze_activity world (r # rest) =
     (case analyze_repository_activity r (world (full_name r)) of
        (calls, Inl e) \<Rightarrow> (calls, r # rest, Some e)
      | (calls, Inr activity) \<Rightarrow>
          (case analyze_activity world rest of
             (calls', rest', err) \<Rightarrow> (calls @ calls', update_activity r activity # rest', err)))"

text \<open>
  Both requests are answered, and every body and date that the analysis goes on to read
  is well-formed.
\<close>

definition answered :: "activity_env \<Rightarrow> bool" where
  "answered env =
     (case (pr_response env, commits_response env) of
        (Inr pr, Inr cr) \<Rightarrow>
          (if status_code pr = 200 then \<not> isl (json pr) else True)
          \<and> (if status_code cr = 200
              then (case json cr of
                      Inl e \<Rightarrow> False
                    | Inr [] \<Rightarrow> True
                    | Inr (first # rest) \<Rightarrow> \<not> isl first)
              else True)
      | _ \<Rightarrow> False)"

section \<open>Node 6: final_ranking\<close>

text \<open>The built-ins \<open>min\<close> and \<open>max\<close> on a list raise \<open>ValueError\<close> when it is empty.\<close>

fun py_min :: "real list \<Rightarrow> error + real" where
  "py_min [] = Inl ValueError"
| "py_min (x # xs) = Inr (fold min xs x)"

fun py_max :: "real list \<Rightarrow> error + real" where
  "py_max [] = Inl ValueError"
| "py_max (x # xs) = Inr (fold max xs x)"

text \<open>The four raw signals of a candidate, as read at lines 293-296 and 306-309.\<close>

definition semantic_of :: "repo \<Rightarrow> real" where
  "semantic_of r = get_or (semantic_similarity r) 0"

definition cross_encoder_of :: "repo \<Rightarrow> real" where
  "cross_encoder_of r = get_or (cross_encoder_score r) 0"

definition activity_of :: "repo \<Rightarrow> real" where
  "activity_of r = get_or (activity_score r) (- 100)"

definition star_of :: "repo \<Rightarrow> real" where
  "star_of r = ln (real (stars r) + 1)"

text \<open>The body of the loop of lines 305-310 for one candidate.\<close>

definition fuse ::
  "real \<Rightarrow> real \<Rightarrow> real \<Rightarrow> real \<Rightarrow> real \<Rightarrow> real \<Rightarrow> real \<Rightarrow> real \<Rightarrow> repo \<Rightarrow> repo" where
  "fuse min_sem max_sem min_ce max_ce min_act max_act min_star max_star r =
     (let norm_sem = normalize_score (semantic_of r) min_sem max_sem;
          norm_ce = normalize_score (cross_encoder_of r) min_ce max_ce;
          norm_act = normalize_score (activity_of r) min_act max_act;
          norm_star = normalize_score (star_of r) min_star max_star
      in r\<lparr>final_score :=
             Some (0.3 * norm_ce + 0.2 * norm_sem + 0.2 * norm_act + 0.3 * norm_star)\<rparr>)"

text \<open>Lines 292-313.\<close>

definition final_ranking :: "repo list \<Rightarrow> error + repo list" where
  "final_ranking filtered_candidates =
     (let semantic_scores = map semantic_of filtered_candidates;
          cross_encoder_scores = map cross_encoder_of filtered_candidates;
          activity_scores = map activity_of filtered_candidates;
          star_scores = map star_of filtered_candidates
      in bind_err (py_min semantic_scores) (\<lambda>min_sem.
         bind_err (py_max semantic_scores) (\<lambda>max_sem.
         bind_err (py_min cross_encoder_scores) (\<lambda>min_ce.
         bind_err (py_max cross_encoder_scores) (\<lambda>max_ce.
         bind_err (py_min activity_scores) (\<lambda>min_act.
         bind_err (py_max activity_scores) (\<lambda>max_act.
         bind_err (py_min star_scores) (\<lambda>min_star.
         bind_err (py_max star_scores) (\<lambda>max_star.
           Inr (sorted_reverse (\<lambda>x. the (final_score x))
                  (map (fuse min_sem max_sem min_ce max_ce min_act max_act
                          min_star max_star)
                     filtered_candidates)))))))))))"

section \<open>The fusion formula of the specification\<close>

text \<open>
  The fused score as the specification words it: each of the four raw signals of the
  candidate is normalised over the minimum and the maximum that the signal takes in the
  current candidate set, and the four results are combined with the weights 0.3 (reranker),
  0.2 (similarity), 0.2 (activity) and 0.3 (log-scaled stars). It is compared below with
  what \<open>final_ranking\<close> computes.
\<close>

definition fusion_formula :: "repo list \<Rightarrow> repo \<Rightarrow> real" where
  "fusion_formula xs r =
     0.3 * normalize_score (cross_encoder_of r)
             (Min (cross_encoder_of ` set xs)) (Max (cross_encoder_of ` set xs))
     + 0.2 * normalize_score (semantic_of r)
               (Min (semantic_of ` set xs)) (Max (semantic_of ` set xs))
     + 0.2 * normalize_score (activity_of r)
               (Min (activity_of ` set xs)) (Max (activity_of ` set xs))
     + 0.3 * normalize_score (star_of r) (Min (star_of ` set xs)) (Max (star_of ` set xs))"

text \<open>
  The candidate at position \<open>i\<close> is the unique maximum on all four raw signals: every
  candidate at another position is strictly below it on each of them.
\<close>

definition unique_maximum :: "repo list \<Rightarrow> nat \<Rightarrow> bool" where
  "unique_maximum xs i =
     list_all (\<lambda>j. j = i \<or> (cross_encoder_of (xs ! j) < cross_encoder_of (xs ! i)
                            \<and> semantic_of (xs ! j) < semantic_of (xs ! i)
                            \<and> activity_of (xs ! j) < activity_of (xs ! i)
                            \<and> star_of (xs ! j) < star_of (xs ! i)))
       [0..<length xs]"

section \<open>Example inputs\<close>

text \<open>The dictionary appended at lines 155-162 for a freshly fetched repository.\<close>

definition fetched :: "string \<Rightarrow> string \<Rightarrow> nat \<Rightarrow> nat \<Rightarrow> repo" where
  "fetched name doc star_count issues =
     \<lparr>title = name, link = ''https://github.com/'' @ name, combined_doc = doc,
      stars = star_count, full_name = name, open_issues_count = issues,
      semantic_similarity = None, cross_encoder_score = None, pr_count = None,
      latest_commit_days = None, activity_score = None, final_score = None\<rparr>"

text \<open>The defaults of \<open>AgentConfiguration\<close>.\<close>

definition default_configuration :: agent_configuration where
  "default_configuration =
     \<lparr>max_results = 1000, per_page = 100, dense_retrieval_k = 100, cross_encoder_top_n = 50,
      min_stars = 50, cross_encoder_threshold = 5.5, sem_model_name = ''all-mpnet-base-v2'',
      cross_encoder_model_name = ''cross-encoder/ms-marco-MiniLM-L-6-v2''\<rparr>"

text \<open>Two reranked candidates: few stars and a low score, few stars and a high score.\<close>

definition repo_a :: repo where
  "repo_a = (fetched ''a'' ''doc a'' 10 4)\<lparr>cross_encoder_score := Some 2\<rparr>"

definition repo_b :: repo where
  "repo_b = (fetched ''b'' ''doc b'' 5 0)\<lparr>cross_encoder_score := Some 6\<rparr>"

text \<open>Candidates that carry every signal read by the fusion stage.\<close>

definition repo_c :: repo where
  "repo_c = (fetched ''c'' ''doc c'' 0 0)
              \<lparr>semantic_similarity := Some 0.2, cross_encoder_score := Some 1,
               activity_score := Some (- 3)\<rparr>"

definition repo_d :: repo where
  "repo_d = (fetched ''d'' ''doc d'' 2 0)
              \<lparr>semantic_similarity := Some 0.8, cross_encoder_score := Some 4,
               activity_score := Some 5\<rparr>"

definition repo_e :: repo where
  "repo_e = (fetched ''e'' ''doc e'' 0 0)
              \<lparr>semantic_similarity := Some 0.2, cross_encoder_score := Some 1,
               activity_score := Some (- 3)\<rparr>"

text \<open>
  The hosting service answering both requests (two open pull requests, a last commit a
  little more than 45 days old), and refusing both.
\<close>

definition quiet_env :: activity_env where
  "quiet_env = \<lparr>pr_response = Inr (Response 200 (Inr [7, 9])),
                commits_response = Inr (Response 200 (Inr [Inr 0])),
                utcnow = 45 * 86400 * 1000000 + 5\<rparr>"

definition failing_env :: activity_env where
  "failing_env = \<lparr>pr_response = Inr (Response 403 (Inr [])),
                  commits_response = Inr (Response 404 (Inr [])),
                  utcnow = 45 * 86400 * 1000000 + 5\<rparr>"

text \<open>
  The pull-request listing is answered, the request for the commits raises; and both are
  answered, but the date of the last commit does not parse.
\<close>

definition unreachable_env :: activity_env where
  "unreachable_env = \<lparr>pr_response = Inr (Response 200 (Inr [7, 9])),
                      commits_response = Inl RequestException,
                      utcnow = 45 * 86400 * 1000000 + 5\<rparr>"

definition malformed_env :: activity_env where
  "malformed_env = \<lparr>pr_response = Inr (Response 200 (Inr [7, 9])),
                    commits_response = Inr (Response 200 (Inr [Inl ValueError])),
                    utcnow = 45 * 86400 * 1000000 + 5\<rparr>"

text \<open>
  Example collaborators: an embedding model that tells two documents apart, an exact
  inner-product index returning the \<open>k\<close> largest inner products in descending order,
  and a cross-encoder that prefers one document.
\<close>

definition example_encode :: "string list \<Rightarrow> vec list" where
  "example_encode texts = map (\<lambda>t. if t = ''doc a'' then [1, 0] else [0, 1]) texts"

definition inner_product :: "vec \<Rightarrow> vec \<Rightarrow> real" where
  "inner_product a b = (\<Sum>(x, y)\<leftarrow>zip a b. x * y)"

definition flat_ip_search :: "vec list \<Rightarrow> vec \<Rightarrow> nat \<Rightarrow> (nat \<times> real) list" where
  "flat_ip_search xb q k =
     take k (sorted_reverse snd (zip [0..<length xb] (map (inner_product q) xb)))"

definition example_predict :: "(string \<times> string) list \<Rightarrow> real list" where
  "example_predict pairs = map (\<lambda>(query, doc). if doc = ''doc b'' then 6 else 2) pairs"

text \<open>
  An embedding model for which every document points away from the query, so that every
  cosine similarity is negative.
\<close>

definition opposed_encode :: "string list \<Rightarrow> vec list" where
  "opposed_encode texts = map (\<lambda>t. if t = ''q'' then [0, 1] else [0, - 1]) texts"

text \<open>
  Two freshly fetched repositories, and configurations that retrieve the top 1 and the
  top 0.
\<close>

definition two_fetched :: "repo list" where
  "two_fetched = [fetched ''a'' ''doc a'' 10 4, fetched ''b'' ''doc b'' 5 0]"

definition top1_configuration :: agent_configuration where
  "top1_configuration = default_configuration\<lparr>dense_retrieval_k := 1\<rparr>"

definition top0_configuration :: agent_configuration where
  "top0_configuration = default_configuration\<lparr>dense_retrieval_k := 0\<rparr>"

lemmas example_defs = repo_c_def repo_d_def repo_e_def fetched_def semantic_of_def
  cross_encoder_of_def activity_of_def star_of_def get_or_def

section \<open>Properties of the quality filter\<close>

lemma filter_loop_filter:
  "filter_loop cfg xs acc =
     acc @ filter (\<lambda>r. \<not> (int (stars r) < min_stars cfg
                          \<and> get_or (cross_encoder_score r) 0 < cross_encoder_threshold cfg)) xs"
  by (induction xs arbitrary: acc) simp_all

text \<open>
  Claim C3. For a non-empty input the output of the filter is non-empty. When every
  candidate has both fewer stars than \<open>min_stars\<close> and a cross-encoder score (0 when
  absent) below the threshold, the output is the input list unchanged; otherwise the
  output is the input with exactly the candidates removed for which both conditions
  hold.
\<close>

theorem filter_candidates_postcondition:
  assumes "reranked \<noteq> []"
  shows "filter_candidates cfg reranked \<noteq> [] \<and>
         filter_candidates cfg reranked =
           (if list_all (\<lambda>r. int (stars r) < min_stars cfg
                               \<and> get_or (cross_encoder_score r) 0 < cross_encoder_threshold cfg)
                 reranked
            then reranked
            else filter (\<lambda>r. \<not> (int (stars r) < min_stars cfg
                               \<and> get_or (cross_encoder_score r) 0 < cross_encoder_threshold cfg))
                   reranked)"
  using assms
  by (auto simp: filter_candidates_def filter_loop_filter filter_empty_conv list_all_iff Let_def)

theorem filter_candidates_postcondition_witness:
  "[repo_a, repo_b] \<noteq> []
   \<and> filter_candidates default_configuration [repo_a, repo_b] = [repo_b]
   \<and> filter_candidates default_configuration [repo_a] = [repo_a]"
  using filter_candidates_postcondition [of "[repo_a, repo_b]" default_configuration]
        filter_candidates_postcondition [of "[repo_a]" default_configuration]
  by (simp add: repo_a_def repo_b_def fetched_def default_configuration_def get_or_def)

text \<open>
  Claim C9. The output of the filter is a subsequence of its input, and it is exactly
  the input restricted to the candidates that survive, so the survivors keep their
  relative order and their multiplicity; in the fallback case, when every candidate is
  low on both signals, the output is the input list itself.
\<close>

theorem filter_candidates_subseq:
  "subseq (filter_candidates cfg reranked) reranked
   \<and> filter_candidates cfg reranked
       = filter (\<lambda>r. r \<in> set (filter_candidates cfg reranked)) reranked
   \<and> (list_all (\<lambda>r. int (stars r) < min_stars cfg
                      \<and> get_or (cross_encoder_score r) 0 < cross_encoder_threshold cfg)
         reranked
       \<longrightarrow> filter_candidates cfg reranked = reranked)"
proof -
  let ?keep = "\<lambda>r. \<not> (int (stars r) < min_stars cfg
                     \<and> get_or (cross_encoder_score r) 0 < cross_encoder_threshold cfg)"
  have sub: "subseq (filter_candidates cfg reranked) reranked"
    by (simp add: filter_candidates_def filter_loop_filter Let_def)
  have "filter (\<lambda>r. r \<in> set (filter ?keep reranked)) reranked = filter ?keep reranked"
    by (rule filter_cong) auto
  moreover have "filter (\<lambda>r. r \<in> set reranked) reranked = reranked"
    by simp
  ultimately have same: "filter_candidates cfg reranked
       = filter (\<lambda>r. r \<in> set (filter_candidates cfg reranked)) reranked"
    by (simp add: filter_candidates_def filter_loop_filter Let_def)
  have fallback: "filter_candidates cfg reranked = reranked"
    if "list_all (\<lambda>r. \<not> ?keep r) reranked"
    using that
    by (simp add: filter_candidates_def filter_loop_filter Let_def list_all_iff filter_empty_conv)
  show ?thesis using sub same fallback by simp
qed

theorem filter_candidates_subseq_witness:
  "filter_candidates default_configuration [repo_a, repo_b, repo_a] = [repo_b]
   \<and> subseq (filter_candidates default_configuration [repo_a, repo_b, repo_a])
        [repo_a, repo_b, repo_a]
   \<and> list_all (\<lambda>r. int (stars r) < min_stars default_configuration
                     \<and> get_or (cross_encoder_score r) 0
                         < cross_encoder_threshold default_configuration) [repo_a, repo_a]
   \<and> filter_candidates default_configuration [repo_a, repo_a] = [repo_a, repo_a]"
proof -
  have low: "list_all (\<lambda>r. int (stars r) < min_stars default_configuration
                     \<and> get_or (cross_encoder_score r) 0
                         < cross_encoder_threshold default_configuration) [repo_a, repo_a]"
    by (simp add: repo_a_def fetched_def default_configuration_def get_or_def)
  have fb: "filter_candidates default_configuration [repo_a, repo_a] = [repo_a, repo_a]"
    using filter_candidates_subseq [of default_configuration "[repo_a, repo_a]"] low by blast
  have kept: "filter_candidates default_configuration [repo_a, repo_b, repo_a] = [repo_b]"
    by (simp add: filter_candidates_def repo_a_def repo_b_def fetched_def
          default_configuration_def get_or_def)
  have "subseq (filter_candidates default_configuration [repo_a, repo_b, repo_a])
          [repo_a, repo_b, repo_a]"
    using filter_candidates_subseq [of default_configuration "[repo_a, repo_b, repo_a]"]
    by blast
  then show ?thesis using low fb kept by blast
qed

section \<open>Properties of the signal normalizer\<close>

text \<open>
  Claim C5. When \<open>max > min\<close> the normalizer returns \<open>(v - min) / (max - min)\<close>, which is
  1 at the maximum, 0 at the minimum and within [0, 1] for every value between them;
  when \<open>max = min\<close> it returns 0.5. Hence, normalised over the minimum and the maximum
  observed in a list of values, every value of the list lands in [0, 1].
\<close>

theorem normalize_score_contract:
  "(min_val < max_val \<longrightarrow>
      normalize_score v min_val max_val = (v - min_val) / (max_val - min_val)
      \<and> normalize_score max_val min_val max_val = 1
      \<and> normalize_score min_val min_val max_val = 0
      \<and> (min_val \<le> v \<and> v \<le> max_val \<longrightarrow>
           0 \<le> normalize_score v min_val max_val \<and> normalize_score v min_val max_val \<le> 1))
   \<and> (max_val = min_val \<longrightarrow> normalize_score v min_val max_val = 0.5)
   \<and> (\<forall>x\<in>set vs. 0 \<le> normalize_score x (Min (set vs)) (Max (set vs))
                   \<and> normalize_score x (Min (set vs)) (Max (set vs)) \<le> 1)"
proof -
  have rng: "0 \<le> normalize_score x (Min (set vs)) (Max (set vs))
             \<and> normalize_score x (Min (set vs)) (Max (set vs)) \<le> 1" if "x \<in> set vs" for x
  proof -
    have "Min (set vs) \<le> x" "x \<le> Max (set vs)" using that by simp_all
    then show ?thesis by (auto simp: normalize_score_def divide_simps)
  qed
  show ?thesis
    using rng by (auto simp: normalize_score_def divide_simps)
qed

theorem normalize_score_contract_witness:
  "(1::real) < 5 \<and> normalize_score 2 1 5 = 1 / 4 \<and> normalize_score 5 1 5 = 1
   \<and> normalize_score 1 1 5 = 0 \<and> 0 \<le> normalize_score 2 1 5 \<and> normalize_score 2 1 5 \<le> 1
   \<and> normalize_score 7 7 7 = 0.5
   \<and> 2 \<in> set [1, 2, 5 :: real]
   \<and> normalize_score 2 (Min (set [1, 2, 5])) (Max (set [1, 2, 5])) = 1 / 4"
  using normalize_score_contract [of 1 5 2 "[1, 2, 5]"] normalize_score_contract [of 7 7 7 "[]"]
  by (simp add: normalize_score_def)

section \<open>Properties of the activity stage\<close>

text \<open>
  When the analysis of a candidate returns, the activity score is
  \<open>3 * prCount + max(0, openIssueCount - prCount) - daysSinceCommit / 30\<close> over the
  returned pull-request count and commit age; the commit age is 999 when the commit
  response has another status than 200 or lists no commit, and the floor of the number
  of days between the clock reading and the date of the first listed commit otherwise;
  the pull-request count is the length of the listing, or 0 when that response has
  another status than 200.
\<close>

lemma analyze_repository_activity_formula:
  assumes "snd (analyze_repository_activity r env) = Inr d"
  shows "new_activity_score d
           = 3 * real (new_pr_count d)
             + max 0 (real (open_issues_count r) - real (new_pr_count d))
             - real_of_int (new_latest_commit_days d) / 30
         \<and> (\<forall>cr. commits_response env = Inr cr \<longrightarrow>
               (status_code cr \<noteq> 200 \<or> json cr = Inr [] \<longrightarrow> new_latest_commit_days d = 999)
               \<and> (\<forall>t rest. status_code cr = 200 \<and> json cr = Inr (Inr t # rest) \<longrightarrow>
                     new_latest_commit_days d
                       = \<lfloor>real_of_int (utcnow env - t) / (86400 * 1000000)\<rfloor>))
         \<and> (\<forall>pr. pr_response env = Inr pr \<longrightarrow>
               new_pr_count d
                 = (if status_code pr = 200 then length (projr (json pr)) else 0))"
proof -
  have fl: "\<lfloor>(real_of_int a - real_of_int b) / 86400000000\<rfloor> = (a - b) div 86400000000"
    for a b :: int
    using floor_divide_of_int_eq [of "a - b" 86400000000, where ?'a = real] by simp
  show ?thesis
    using assms
    by (auto simp: analyze_repository_activity_def pr_count_of_def days_diff_of_def bind_err_def
          Let_def timedelta_days_def fl max_def
          split: sum.splits list.splits if_splits)
qed

text \<open>The analysis returns, after both requests, whenever both are answered well.\<close>

lemma answered_returns:
  assumes "answered env"
  shows "\<exists>d. analyze_repository_activity r env
               = ([Get_pulls (full_name r), Get_commits (full_name r)], Inr d)"
  using assms
  by (auto simp: answered_def analyze_repository_activity_def pr_count_of_def days_diff_of_def
        bind_err_def Let_def split: sum.splits list.splits if_splits)

lemma analyze_repository_activity_examples:
  "snd (analyze_repository_activity repo_a quiet_env)
     = Inr \<lparr>new_pr_count = 2, new_latest_commit_days = 45,
            new_activity_score = 3 * 2 + 2 - 45 / 30\<rparr>
   \<and> snd (analyze_repository_activity repo_a failing_env)
       = Inr \<lparr>new_pr_count = 0, new_latest_commit_days = 999,
              new_activity_score = 4 - 999 / 30\<rparr>"
  by (simp add: analyze_repository_activity_def pr_count_of_def days_diff_of_def bind_err_def
        quiet_env_def failing_env_def repo_a_def fetched_def timedelta_days_def)

text \<open>
  Claim C6. The code does not do what the claim says when the commit lookup fails by
  raising. A lookup that answers with another status than 200, or with no commit, gives
  999, as the lemmas above show. But the request for the commits can raise, and the date
  of the listed commit can fail to parse; nothing catches the exception, so the analysis
  of the candidate does not return, the candidate gets no commit age at all, and the
  stage ends with that exception.
\<close>

theorem commit_lookup_raises:
  "analyze_repository_activity repo_a unreachable_env
     = ([Get_pulls ''a'', Get_commits ''a''], Inl RequestException)
   \<and> analyze_repository_activity repo_a malformed_env
       = ([Get_pulls ''a'', Get_commits ''a''], Inl ValueError)
   \<and> analyze_activity (\<lambda>name. unreachable_env) [repo_a]
       = ([Get_pulls ''a'', Get_commits ''a''], [repo_a], Some RequestException)
   \<and> latest_commit_days repo_a = None"
  by (simp add: analyze_repository_activity_def pr_count_of_def days_diff_of_def bind_err_def
        unreachable_env_def malformed_env_def repo_a_def fetched_def)

text \<open>
  Claim C10. The activity stage leaves a list of as many candidates as it received, in
  the same order; position by position the candidate it leaves differs from the input
  candidate at most in the fields \<open>pr_count\<close>, \<open>latest_commit_days\<close> and
  \<open>activity_score\<close>, also when an exception ends the stage. When the stage returns,
  these three fields are set on every candidate; and it returns whenever every request
  is answered well.
\<close>

theorem analyze_activity_frame:
  "length (fst (snd (analyze_activity world xs))) = length xs
   \<and> map (\<lambda>r. r\<lparr>pr_count := None, latest_commit_days := None, activity_score := None\<rparr>)
        (fst (snd (analyze_activity world xs)))
     = map (\<lambda>r. r\<lparr>pr_count := None, latest_commit_days := None, activity_score := None\<rparr>) xs
   \<and> (snd (snd (analyze_activity world xs)) = None \<longrightarrow>
        list_all (\<lambda>r. pr_count r \<noteq> None \<and> latest_commit_days r \<noteq> None \<and> activity_score r \<noteq> None)
          (fst (snd (analyze_activity world xs))))
   \<and> (list_all (\<lambda>r. answered (world (full_name r))) xs \<longrightarrow>
        snd (snd (analyze_activity world xs)) = None)"
proof (induction xs)
  case Nil
  then show ?case by simp
next
  case (Cons r rest)
  obtain calls res where a: "analyze_repository_activity r (world (full_name r)) = (calls, res)"
    by (cases "analyze_repository_activity r (world (full_name r))")
  obtain calls' rest' err where b: "analyze_activity world rest = (calls', rest', err)"
    by (cases "analyze_activity world rest")
  show ?case
  proof (cases res)
    case (Inl e)
    have "\<not> answered (world (full_name r))"
      using answered_returns [of "world (full_name r)" r] a Inl by auto
    then show ?thesis using a Inl by simp
  next
    case (Inr d)
    then show ?thesis using Cons.IH a b by (simp add: update_activity_def)
  qed
qed

lemma analyze_activity_examples:
  "analyze_activity (\<lambda>name. quiet_env) [repo_a, repo_b]
     = ([Get_pulls ''a'', Get_commits ''a'', Get_pulls ''b'', Get_commits ''b''],
        [repo_a\<lparr>pr_count := Some 2, latest_commit_days := Some 45,
                activity_score := Some (3 * 2 + 2 - 45 / 30)\<rparr>,
         repo_b\<lparr>pr_count := Some 2, latest_commit_days := Some 45,
                activity_score := Some (3 * 2 + 0 - 45 / 30)\<rparr>],
        None)
   \<and> analyze_activity (\<lambda>name. if name = ''b'' then unreachable_env else quiet_env)
        [repo_a, repo_b]
       = ([Get_pulls ''a'', Get_commits ''a'', Get_pulls ''b'', Get_commits ''b''],
          [repo_a\<lparr>pr_count := Some 2, latest_commit_days := Some 45,
                  activity_score := Some (3 * 2 + 2 - 45 / 30)\<rparr>,
           repo_b],
          Some RequestException)"
  by (simp add: analyze_repository_activity_def pr_count_of_def days_diff_of_def bind_err_def
        update_activity_def quiet_env_def unreachable_env_def repo_a_def repo_b_def fetched_def
        timedelta_days_def)

theorem analyze_activity_frame_witness:
  "list_all (\<lambda>r. answered ((\<lambda>name. quiet_env) (full_name r))) [repo_a, repo_b]
   \<and> snd (snd (analyze_activity (\<lambda>name. quiet_env) [repo_a, repo_b])) = None
   \<and> map title (fst (snd (analyze_activity (\<lambda>name. quiet_env) [repo_a, repo_b])))
       = [''a'', ''b'']
   \<and> map cross_encoder_score (fst (snd (analyze_activity (\<lambda>name. quiet_env) [repo_a, repo_b])))
       = [Some 2, Some 6]
   \<and> map pr_count (fst (snd (analyze_activity (\<lambda>name. quiet_env) [repo_a, repo_b])))
       = [Some 2, Some 2]
   \<and> map pr_count
        (fst (snd (analyze_activity (\<lambda>name. if name = ''b'' then unreachable_env else quiet_env)
                     [repo_a, repo_b])))
       = [Some 2, None]"
proof -
  have ans: "list_all (\<lambda>r. answered ((\<lambda>name. quiet_env) (full_name r))) [repo_a, repo_b]"
    by (simp add: answered_def quiet_env_def)
  have "snd (snd (analyze_activity (\<lambda>name. quiet_env) [repo_a, repo_b])) = None"
    using analyze_activity_frame [of "\<lambda>name. quiet_env" "[repo_a, repo_b]"] ans by blast
  then show ?thesis
    using ans analyze_activity_examples by (simp add: repo_a_def repo_b_def fetched_def)
qed

section \<open>Properties of the fusion stage\<close>

lemma py_min_Min: "xs \<noteq> [] \<Longrightarrow> py_min (map f xs) = Inr (Min (f ` set xs))"
  by (cases xs) (simp_all add: Min.set_eq_fold [symmetric])

lemma py_max_Max: "xs \<noteq> [] \<Longrightarrow> py_max (map f xs) = Inr (Max (f ` set xs))"
  by (cases xs) (simp_all add: Max.set_eq_fold [symmetric])

lemma fuse_formula:
  "fuse (Min (semantic_of ` set xs)) (Max (semantic_of ` set xs))
        (Min (cross_encoder_of ` set xs)) (Max (cross_encoder_of ` set xs))
        (Min (activity_of ` set xs)) (Max (activity_of ` set xs))
        (Min (star_of ` set xs)) (Max (star_of ` set xs))
     = (\<lambda>r. r\<lparr>final_score := Some (fusion_formula xs r)\<rparr>)"
  by (rule ext) (simp add: fuse_def fusion_formula_def Let_def)

lemma final_ranking_nonempty:
  assumes "xs \<noteq> []"
  shows "final_ranking xs
           = Inr (sorted_reverse (\<lambda>x. the (final_score x))
                    (map (\<lambda>r. r\<lparr>final_score := Some (fusion_formula xs r)\<rparr>) xs))"
  using assms
  by (simp add: final_ranking_def Let_def py_min_Min py_max_Max bind_err_def fuse_formula)

lemma normalize_unique_max:
  assumes i: "i < length xs" and two: "2 \<le> length xs"
    and less: "\<And>j. j < length xs \<Longrightarrow> j \<noteq> i \<Longrightarrow> f (xs ! j) < f (xs ! i)"
  shows "normalize_score (f (xs ! i)) (Min (f ` set xs)) (Max (f ` set xs)) = 1"
proof -
  have fin: "finite (f ` set xs)" by simp
  have mem: "f (xs ! i) \<in> f ` set xs" using i by simp
  have le: "y \<le> f (xs ! i)" if "y \<in> f ` set xs" for y
  proof -
    from that obtain j where j: "j < length xs" "y = f (xs ! j)"
      by (auto simp: in_set_conv_nth)
    show ?thesis
    proof (cases "j = i")
      case True then show ?thesis using j by simp
    next
      case False then show ?thesis using less [of j] j by simp
    qed
  qed
  have mx: "Max (f ` set xs) = f (xs ! i)"
    by (intro Max_eqI fin le mem)
  have "\<exists>j. j < length xs \<and> j \<noteq> i"
  proof (cases "i = 0")
    case True
    moreover have "1 < length xs" using two by linarith
    ultimately show ?thesis by (intro exI [of _ 1]) simp
  next
    case False
    moreover have "0 < length xs" using two by linarith
    ultimately show ?thesis by blast
  qed
  then obtain j where j: "j < length xs" "j \<noteq> i" by blast
  have "Min (f ` set xs) \<le> f (xs ! j)" using j by simp
  also have "\<dots> < f (xs ! i)" using less j by simp
  finally have "Min (f ` set xs) < Max (f ` set xs)" using mx by simp
  then show ?thesis using mx by (simp add: normalize_score_def)
qed

text \<open>
  Claim C4, as amended. On a non-empty candidate list the fusion stage returns the input
  candidates, each with \<open>final_score\<close> set to the formula of the specification (activity
  read as -100 when absent); the four weights sum to 1; in a list of at least two
  candidates the one that is the unique maximum on all four raw signals receives exactly
  1; and a sole candidate receives 0.5.
\<close>

theorem final_ranking_fused_score:
  assumes "xs \<noteq> []"
  shows "\<exists>ys. final_ranking xs = Inr ys
          \<and> mset ys = mset (map (\<lambda>r. r\<lparr>final_score := Some (fusion_formula xs r)\<rparr>) xs)
          \<and> (0.3 + 0.2 + 0.2 + 0.3 = (1::real))
          \<and> (\<forall>i<length xs. 2 \<le> length xs \<and> unique_maximum xs i
                \<longrightarrow> fusion_formula xs (xs ! i) = 1)
          \<and> (length xs = 1 \<longrightarrow> fusion_formula xs (xs ! 0) = 1 / 2)"
proof -
  have um: "fusion_formula xs (xs ! i) = 1"
    if i: "i < length xs" and two: "2 \<le> length xs" and u: "unique_maximum xs i" for i
  proof -
    have less: "cross_encoder_of (xs ! j) < cross_encoder_of (xs ! i)
                \<and> semantic_of (xs ! j) < semantic_of (xs ! i)
                \<and> activity_of (xs ! j) < activity_of (xs ! i)
                \<and> star_of (xs ! j) < star_of (xs ! i)"
      if "j < length xs" "j \<noteq> i" for j
      using u that by (auto simp: unique_maximum_def list_all_iff)
    show ?thesis
      unfolding fusion_formula_def
      using normalize_unique_max [OF i two, of cross_encoder_of]
            normalize_unique_max [OF i two, of semantic_of]
            normalize_unique_max [OF i two, of activity_of]
            normalize_unique_max [OF i two, of star_of] less
      by simp
  qed
  have sole: "fusion_formula xs (xs ! 0) = 1 / 2" if "length xs = 1"
  proof -
    from that obtain r where "xs = [r]" by (cases xs) auto
    then show ?thesis by (simp add: fusion_formula_def normalize_score_def)
  qed
  show ?thesis
    using assms um sole by (simp add: final_ranking_nonempty sorted_reverse_def)
qed

theorem final_ranking_fused_score_witness:
  "[repo_c, repo_d] \<noteq> [] \<and> 2 \<le> length [repo_c, repo_d]
   \<and> final_ranking [repo_c, repo_d]
       = Inr [repo_d\<lparr>final_score := Some 1\<rparr>, repo_c\<lparr>final_score := Some 0\<rparr>]
   \<and> unique_maximum [repo_c, repo_d] 1
   \<and> fusion_formula [repo_c, repo_d] repo_d = 1"
proof -
  have u: "unique_maximum [repo_c, repo_d] 1"
    by (simp add: unique_maximum_def example_defs)
  have f: "final_ranking [repo_c, repo_d]
       = Inr [repo_d\<lparr>final_score := Some 1\<rparr>, repo_c\<lparr>final_score := Some 0\<rparr>]"
    by (simp add: final_ranking_def bind_err_def fuse_def normalize_score_def sorted_reverse_def
          Let_def example_defs)
  have "\<forall>i<length [repo_c, repo_d]. 2 \<le> length [repo_c, repo_d]
            \<and> unique_maximum [repo_c, repo_d] i
          \<longrightarrow> fusion_formula [repo_c, repo_d] ([repo_c, repo_d] ! i) = 1"
    using final_ranking_fused_score [of "[repo_c, repo_d]"] by blast
  then have "fusion_formula [repo_c, repo_d] ([repo_c, repo_d] ! 1) = 1"
    using u by (elim allE [of _ 1]) simp
  then show ?thesis using u f by simp
qed

text \<open>
  Claim C4 as stated fails on a list of one candidate: that candidate is the unique
  maximum on every signal, every signal has \<open>max = min\<close>, and the fused score is 0.5.
\<close>

theorem final_ranking_single_counterexample:
  "unique_maximum [repo_c] 0
   \<and> final_ranking [repo_c] = Inr [repo_c\<lparr>final_score := Some (1 / 2)\<rparr>]
   \<and> repo_c\<lparr>final_score := Some (1 / 2)\<rparr> \<noteq> repo_c\<lparr>final_score := Some 1\<rparr>"
  by (simp add: unique_maximum_def final_ranking_def bind_err_def fuse_def normalize_score_def
        sorted_reverse_def Let_def example_defs)

text \<open>
  Claim C7. On a non-empty candidate list the fusion stage returns a list \<open>ys\<close> of the
  same length which is a permutation of \<open>zs\<close>, the input candidates in input order with
  their fused scores attached; every candidate of \<open>ys\<close> carries a fused score, \<open>ys\<close> is
  in descending order of fused score, and for every
  score the candidates of \<open>ys\<close> with that score appear in the order they have in the
  input.
\<close>

theorem final_ranking_order:
  assumes "xs \<noteq> []"
  shows "\<exists>ys zs. final_ranking xs = Inr ys
          \<and> length ys = length xs
          \<and> map (\<lambda>r. r\<lparr>final_score := None\<rparr>) zs = map (\<lambda>r. r\<lparr>final_score := None\<rparr>) xs
          \<and> mset ys = mset zs
          \<and> list_all (\<lambda>r. final_score r \<noteq> None) ys
          \<and> sorted_wrt (\<lambda>a b. the (final_score b) \<le> the (final_score a)) ys
          \<and> (\<forall>s. filter (\<lambda>r. final_score r = Some s) ys
                  = filter (\<lambda>r. final_score r = Some s) zs)"
proof -
  define zs where "zs = map (\<lambda>r. r\<lparr>final_score := Some (fusion_formula xs r)\<rparr>) xs"
  define ys where "ys = sorted_reverse (\<lambda>x. the (final_score x)) zs"
  have fr: "final_ranking xs = Inr ys"
    using assms by (simp add: final_ranking_nonempty ys_def zs_def)
  have len: "length ys = length xs" by (simp add: ys_def zs_def sorted_reverse_def)
  have frame: "map (\<lambda>r. r\<lparr>final_score := None\<rparr>) zs = map (\<lambda>r. r\<lparr>final_score := None\<rparr>) xs"
    by (simp add: zs_def)
  have perm: "mset ys = mset zs" by (simp add: ys_def sorted_reverse_def)
  have "sorted (map (\<lambda>x. - the (final_score x)) ys)"
    by (simp add: ys_def sorted_reverse_def)
  then have desc: "sorted_wrt (\<lambda>a b. the (final_score b) \<le> the (final_score a)) ys"
    by (simp add: sorted_map)
  have some: "final_score r \<noteq> None" if "r \<in> set zs" for r
    using that by (auto simp: zs_def)
  have key: "(final_score r = Some s) = (- the (final_score r) = - s)" if "r \<in> set zs" for r s
    using some [OF that] by auto
  have stable: "filter (\<lambda>r. final_score r = Some s) ys = filter (\<lambda>r. final_score r = Some s) zs"
    for s
  proof -
    have "filter (\<lambda>r. final_score r = Some s) ys = filter (\<lambda>r. - the (final_score r) = - s) ys"
      by (rule filter_cong) (auto simp: key ys_def sorted_reverse_def)
    also have "\<dots> = filter (\<lambda>r. - the (final_score r) = - s) zs"
      unfolding ys_def sorted_reverse_def by (rule sort_key_stable)
    also have "\<dots> = filter (\<lambda>r. final_score r = Some s) zs"
      by (rule filter_cong) (auto simp: key)
    finally show ?thesis .
  qed
  have scored: "list_all (\<lambda>r. final_score r \<noteq> None) ys"
    using some by (simp add: list_all_iff ys_def sorted_reverse_def)
  show ?thesis using fr len frame perm scored desc stable by blast
qed

theorem final_ranking_order_witness:
  "[repo_c, repo_d, repo_e] \<noteq> []
   \<and> final_ranking [repo_c, repo_d, repo_e]
       = Inr [repo_d\<lparr>final_score := Some 1\<rparr>, repo_c\<lparr>final_score := Some 0\<rparr>,
              repo_e\<lparr>final_score := Some 0\<rparr>]"
proof -
  have f: "final_ranking [repo_c, repo_d, repo_e]
       = Inr [repo_d\<lparr>final_score := Some 1\<rparr>, repo_c\<lparr>final_score := Some 0\<rparr>,
              repo_e\<lparr>final_score := Some 0\<rparr>]"
    by (simp add: final_ranking_def bind_err_def fuse_def normalize_score_def sorted_reverse_def
          Let_def example_defs)
  show ?thesis
    using final_ranking_order [of "[repo_c, repo_d, repo_e]"] f by simp
qed

section \<open>Properties of dense retrieval\<close>

lemma annotate_nth:
  assumes "list_all (\<lambda>i. i < length rs) (map fst hits)"
  shows "\<exists>rs'. annotate rs hits = Inr rs' \<and> length rs' = length rs
           \<and> (\<forall>i<length rs. rs' ! i = (case map_of (rev hits) i of
                                         None \<Rightarrow> rs ! i
                                       | Some s \<Rightarrow> (rs ! i)\<lparr>semantic_similarity := Some s\<rparr>))"
  using assms
proof (induction hits arbitrary: rs)
  case Nil
  then show ?case by simp
next
  case (Cons h hits)
  obtain idx sc where h: "h = (idx, sc)" by (cases h)
  define rs1 where "rs1 = rs[idx := (rs ! idx)\<lparr>semantic_similarity := Some sc\<rparr>]"
  have idx: "idx < length rs" using Cons.prems h by simp
  have len1: "length rs1 = length rs" by (simp add: rs1_def)
  have "list_all (\<lambda>i. i < length rs1) (map fst hits)"
    using Cons.prems len1 by simp
  from Cons.IH [OF this] obtain rs' where
    a: "annotate rs1 hits = Inr rs'" and l: "length rs' = length rs1"
    and n: "\<forall>i<length rs1. rs' ! i = (case map_of (rev hits) i of
                                         None \<Rightarrow> rs1 ! i
                                       | Some s \<Rightarrow> (rs1 ! i)\<lparr>semantic_similarity := Some s\<rparr>)"
    by blast
  have "annotate rs (h # hits) = Inr rs'"
    using a idx by (simp add: h rs1_def)
  moreover have "length rs' = length rs" using l len1 by simp
  moreover have "rs' ! i = (case map_of (rev (h # hits)) i of
                              None \<Rightarrow> rs ! i
                            | Some s \<Rightarrow> (rs ! i)\<lparr>semantic_similarity := Some s\<rparr>)"
    if "i < length rs" for i
  proof -
    have "rs' ! i = (case map_of (rev hits) i of
                       None \<Rightarrow> rs1 ! i
                     | Some s \<Rightarrow> (rs1 ! i)\<lparr>semantic_similarity := Some s\<rparr>)"
      using n that len1 by simp
    then show ?thesis
      using that idx
      by (cases "map_of (rev hits) i")
         (auto simp: h rs1_def map_add_def nth_list_update split: option.splits)
  qed
  ultimately show ?case by blast
qed

lemma length_filter_sort_key:
  "length (filter P (sort_key f xs)) = length (filter P xs)"
proof -
  have "mset (filter P (sort_key f xs)) = mset (filter P xs)" by simp
  then show ?thesis by (metis size_mset)
qed


text \<open>
  For every \<open>K > 0\<close>, whatever the size of the corpus: when the embedding model returns
  one vector per document and a vector for the query, and the index search returns
  \<open>min(K, len(docs))\<close> hits at distinct positions of the list, the stage returns all
  \<open>len(docs)\<close> repositories, of which only the \<open>min(K, len(docs))\<close> hits carry a
  similarity.
\<close>

lemma dense_retrieval_returns_all:
  assumes K: "0 < dense_retrieval_k cfg"
    and ne: "repositories \<noteq> []"
    and enc: "length (encode (map combined_doc repositories)) = length repositories"
    and encq: "encode [user_query] \<noteq> []"
    and hits: "hits = search (normalize_embeddings (encode (map combined_doc repositories)))
                        (hd (normalize_embeddings (encode [user_query])))
                        (nat (min (dense_retrieval_k cfg) (int (length repositories))))"
    and len_hits: "length hits = nat (min (dense_retrieval_k cfg) (int (length repositories)))"
    and dist: "distinct (map fst hits)"
    and range: "list_all (\<lambda>i. i < length repositories) (map fst hits)"
    and fresh: "list_all (\<lambda>r. semantic_similarity r = None) repositories"
  shows "\<exists>ranked.
           snd (dense_retrieval cfg encode search user_query repositories) = Inr ranked
         \<and> length ranked = length repositories
         \<and> mset (map (\<lambda>r. r\<lparr>semantic_similarity := None\<rparr>) ranked)
             = mset (map (\<lambda>r. r\<lparr>semantic_similarity := None\<rparr>) repositories)
         \<and> length (filter (\<lambda>r. semantic_similarity r \<noteq> None) ranked)
             = min (nat (dense_retrieval_k cfg)) (length repositories)
         \<and> (\<forall>(i, s)\<in>set hits. (repositories ! i)\<lparr>semantic_similarity := Some s\<rparr> \<in> set ranked)
         \<and> sorted_wrt (\<lambda>a b. get_or (semantic_similarity b) 0 \<le> get_or (semantic_similarity a) 0)
             ranked
         \<and> dense_retrieval cfg encode search user_query []
             = ([SentenceTransformer_init (sem_model_name cfg)], Inr [])"
proof -
  from annotate_nth [OF range] obtain rs' where
    a: "annotate repositories hits = Inr rs'" and l: "length rs' = length repositories"
    and n: "\<forall>i<length repositories. rs' ! i = (case map_of (rev hits) i of
               None \<Rightarrow> repositories ! i
             | Some s \<Rightarrow> (repositories ! i)\<lparr>semantic_similarity := Some s\<rparr>)"
    by blast
  define ranked where
    "ranked = sorted_reverse (\<lambda>x. get_or (semantic_similarity x) 0) rs'"
  obtain qe qes where qe: "normalize_embeddings (encode [user_query]) = qe # qes"
    using encq by (cases "encode [user_query]") (auto simp: normalize_embeddings_def)
  have k: "\<not> min (dense_retrieval_k cfg) (int (length repositories)) \<le> 0"
    using K ne by (cases repositories) (auto simp: min_def)
  have ln: "length (normalize_embeddings es) = length es" for es
    by (simp add: normalize_embeddings_def)
  have a': "annotate repositories
              (search (normalize_embeddings (encode (map combined_doc repositories))) qe
                 (nat (min (dense_retrieval_k cfg) (int (length repositories))))) = Inr rs'"
    using a hits qe by simp
  have res: "snd (dense_retrieval cfg encode search user_query repositories) = Inr ranked"
    using ne k a'
    by (simp add: dense_retrieval_def Let_def qe ln enc ranked_def del: min_le_iff_disj)
  have len: "length ranked = length repositories"
    by (simp add: ranked_def sorted_reverse_def l)
  have dist_rev: "distinct (map fst (rev hits))" using dist by (simp add: rev_map [symmetric])
  have some: "map_of (rev hits) i = Some s \<longleftrightarrow> (i, s) \<in> set hits" for i s
    using map_of_eq_Some_iff [OF dist_rev, of i s] by simp
  have none: "map_of (rev hits) i = None \<longleftrightarrow> i \<notin> fst ` set hits" for i
    by (simp add: map_of_eq_None_iff)
  have in_range: "i < length repositories" if "i \<in> fst ` set hits" for i
    using range that by (auto simp: list_all_iff)
  have frame: "map (\<lambda>r. r\<lparr>semantic_similarity := None\<rparr>) rs'
             = map (\<lambda>r. r\<lparr>semantic_similarity := None\<rparr>) repositories"
  proof (rule nth_equalityI)
    show "length (map (\<lambda>r. r\<lparr>semantic_similarity := None\<rparr>) rs')
        = length (map (\<lambda>r. r\<lparr>semantic_similarity := None\<rparr>) repositories)"
      by (simp add: l)
  next
    fix i assume "i < length (map (\<lambda>r. r\<lparr>semantic_similarity := None\<rparr>) rs')"
    then have i: "i < length repositories" by (simp add: l)
    then show "map (\<lambda>r. r\<lparr>semantic_similarity := None\<rparr>) rs' ! i
             = map (\<lambda>r. r\<lparr>semantic_similarity := None\<rparr>) repositories ! i"
      using n l by (cases "map_of (rev hits) i") simp_all
  qed
  have perm: "mset (map (\<lambda>r. r\<lparr>semantic_similarity := None\<rparr>) ranked)
            = mset (map (\<lambda>r. r\<lparr>semantic_similarity := None\<rparr>) repositories)"
  proof -
    have "mset ranked = mset rs'" by (simp add: ranked_def sorted_reverse_def)
    then have "mset (map (\<lambda>r. r\<lparr>semantic_similarity := None\<rparr>) ranked)
             = mset (map (\<lambda>r. r\<lparr>semantic_similarity := None\<rparr>) rs')"
      by (metis mset_map)
    then show ?thesis by (simp add: frame)
  qed
  have annotated: "semantic_similarity (rs' ! i) \<noteq> None \<longleftrightarrow> i \<in> fst ` set hits"
    if i: "i < length repositories" for i
  proof (cases "map_of (rev hits) i")
    case None
    then have "rs' ! i = repositories ! i" using n i by simp
    moreover have "semantic_similarity (repositories ! i) = None"
      using fresh i by (simp add: list_all_length)
    ultimately show ?thesis using None none by simp
  next
    case (Some s)
    then have "rs' ! i = (repositories ! i)\<lparr>semantic_similarity := Some s\<rparr>" using n i by simp
    moreover have "i \<in> fst ` set hits" using Some none [of i] by auto
    ultimately show ?thesis by simp
  qed
  have "{i. i < length rs' \<and> semantic_similarity (rs' ! i) \<noteq> None} = fst ` set hits"
    using annotated in_range l by auto
  then have "length (filter (\<lambda>r. semantic_similarity r \<noteq> None) rs') = card (fst ` set hits)"
    by (simp add: length_filter_conv_card)
  also have "\<dots> = length hits"
    using distinct_card [OF dist] by simp
  finally have cnt0: "length (filter (\<lambda>r. semantic_similarity r \<noteq> None) rs')
                    = min (nat (dense_retrieval_k cfg)) (length repositories)"
    using len_hits K by (simp add: min_def)
  have cnt: "length (filter (\<lambda>r. semantic_similarity r \<noteq> None) ranked)
           = min (nat (dense_retrieval_k cfg)) (length repositories)"
    using cnt0 by (simp add: ranked_def sorted_reverse_def length_filter_sort_key)
  have each: "\<forall>(i, s)\<in>set hits. (repositories ! i)\<lparr>semantic_similarity := Some s\<rparr> \<in> set ranked"
  proof (clarify)
    fix i s assume h: "(i, s) \<in> set hits"
    then have i: "i < length repositories" using in_range by force
    have "rs' ! i = (repositories ! i)\<lparr>semantic_similarity := Some s\<rparr>"
      using n i some [of i s] h by simp
    moreover have "rs' ! i \<in> set rs'" using i l by simp
    ultimately show "(repositories ! i)\<lparr>semantic_similarity := Some s\<rparr> \<in> set ranked"
      by (simp add: ranked_def sorted_reverse_def)
  qed
  have "sorted (map (\<lambda>x. - get_or (semantic_similarity x) 0) ranked)"
    by (simp add: ranked_def sorted_reverse_def)
  then have desc: "sorted_wrt (\<lambda>a b. get_or (semantic_similarity b) 0
                                  \<le> get_or (semantic_similarity a) 0) ranked"
    by (simp add: sorted_map)
  have empty: "dense_retrieval cfg encode search user_query []
             = ([SentenceTransformer_init (sem_model_name cfg)], Inr [])"
    by (simp add: dense_retrieval_def)
  show ?thesis
    using res len perm cnt each desc empty by blast
qed


text \<open>
  Claim C1. The code does not do what the claim says. With \<open>K = 1\<close> on two documents the
  stage returns both repositories, not \<open>min(1, 2) = 1\<close>, and the second one carries no
  similarity: the score is written into the hits of the search, but the list that is
  sorted and returned is the whole of \<open>state.repositories\<close>. When every similarity is
  negative the repository that was not retrieved, read as 0, is even ranked before the
  hit. With \<open>K = 0\<close> the stage does not return: the search is called with \<open>k = 0\<close> and
  the index raises \<open>AssertionError\<close>.
\<close>

theorem dense_retrieval_top_k_divergence:
  "dense_retrieval top1_configuration example_encode flat_ip_search ''doc a'' two_fetched
     = ([SentenceTransformer_init ''all-mpnet-base-v2'', Encode [''doc a'', ''doc b''],
         Encode [''doc a''], Index_search 1],
        Inr [(fetched ''a'' ''doc a'' 10 4)
               \<lparr>semantic_similarity := Some ((1 / (1 + 1 / 10 ^ 10)) ^ 2)\<rparr>,
             fetched ''b'' ''doc b'' 5 0])
   \<and> min (dense_retrieval_k top1_configuration) (int (length (map combined_doc two_fetched))) = 1
   \<and> semantic_similarity (fetched ''b'' ''doc b'' 5 0) = None
   \<and> snd (dense_retrieval top1_configuration opposed_encode flat_ip_search ''q'' two_fetched)
       = Inr [fetched ''b'' ''doc b'' 5 0,
              (fetched ''a'' ''doc a'' 10 4)
                \<lparr>semantic_similarity := Some (- ((1 / (1 + 1 / 10 ^ 10)) ^ 2))\<rparr>]
   \<and> dense_retrieval top0_configuration example_encode flat_ip_search ''doc a'' two_fetched
       = ([SentenceTransformer_init ''all-mpnet-base-v2'', Encode [''doc a'', ''doc b''],
           Encode [''doc a''], Index_search 0],
          Inl AssertionError)"
  by (simp add: dense_retrieval_def Let_def flat_ip_search_def normalize_embeddings_def
        example_encode_def opposed_encode_def two_fetched_def fetched_def
        top1_configuration_def top0_configuration_def default_configuration_def
        inner_product_def sorted_reverse_def power2_eq_square get_or_def)

section \<open>Properties of the reranker\<close>

lemma assign_scores_map2:
  "length scores = length candidates \<Longrightarrow>
   assign_scores candidates scores
     = map2 (\<lambda>c s. c\<lparr>cross_encoder_score := Some s\<rparr>) candidates scores"
  by (induction candidates scores rule: assign_scores.induct) simp_all

text \<open>
  Claim C8. When the cross-encoder returns one score per pair and the configured top-N
  is not negative, the reranker calls \<open>predict\<close> once, on the pairs of the first 100
  candidates of the retrieval output in their order; the candidate at each position
  receives the score at the same position; and the result is the first N elements of a
  list that is a permutation of these scored candidates in descending order of score.
\<close>

theorem cross_encoder_rerank_postcondition:
  assumes contract:
      "length (predict (map (\<lambda>c. (q, combined_doc c)) (take 100 xs))) = length (take 100 xs)"
    and top_n: "0 \<le> cross_encoder_top_n cfg"
  shows "\<exists>ranked.
           fst (cross_encoder_rerank cfg predict q xs)
             = [CrossEncoder_init (cross_encoder_model_name cfg),
                Predict (map (\<lambda>c. (q, combined_doc c)) (take 100 xs))]
         \<and> snd (cross_encoder_rerank cfg predict q xs)
             = Inr (take (nat (cross_encoder_top_n cfg)) ranked)
         \<and> mset ranked
             = mset (map2 (\<lambda>c s. c\<lparr>cross_encoder_score := Some s\<rparr>) (take 100 xs)
                       (predict (map (\<lambda>c. (q, combined_doc c)) (take 100 xs))))
         \<and> sorted_wrt (\<lambda>a b. the (cross_encoder_score b) \<le> the (cross_encoder_score a)) ranked"
proof -
  define cs where "cs = take 100 xs"
  define scored where
    "scored = map2 (\<lambda>c s. c\<lparr>cross_encoder_score := Some s\<rparr>) cs
                (predict (map (\<lambda>c. (q, combined_doc c)) cs))"
  define ranked where "ranked = sorted_reverse (\<lambda>x. the (cross_encoder_score x)) scored"
  have asg: "assign_scores cs (predict (map (\<lambda>c. (q, combined_doc c)) cs)) = scored"
    using contract by (simp add: assign_scores_map2 cs_def scored_def)
  have all: "list_all (\<lambda>x. cross_encoder_score x \<noteq> None) scored"
    by (auto simp: scored_def list_all_iff set_zip)
  have srt: "sorted_by_cross_encoder_score scored = Inr ranked"
    using all by (simp add: sorted_by_cross_encoder_score_def ranked_def)
  have res: "cross_encoder_rerank cfg predict q xs
      = ([CrossEncoder_init (cross_encoder_model_name cfg),
          Predict (map (\<lambda>c. (q, combined_doc c)) cs)],
         Inr (take (nat (cross_encoder_top_n cfg)) ranked))"
    using top_n
    by (simp add: cross_encoder_rerank_def cross_encoder_rerank_func_def Let_def asg srt
          slice_to_def cs_def [symmetric])
  have perm: "mset ranked = mset scored" by (simp add: ranked_def sorted_reverse_def)
  have "sorted (map (\<lambda>x. - the (cross_encoder_score x)) ranked)"
    by (simp add: ranked_def sorted_reverse_def)
  then have desc:
    "sorted_wrt (\<lambda>a b. the (cross_encoder_score b) \<le> the (cross_encoder_score a)) ranked"
    by (simp add: sorted_map)
  show ?thesis
    using res perm desc unfolding scored_def cs_def by (intro exI [of _ ranked]) simp
qed

theorem cross_encoder_rerank_postcondition_witness:
  "length (example_predict (map (\<lambda>c. (''q'', combined_doc c)) (take 100 two_fetched)))
     = length (take 100 two_fetched)
   \<and> 0 \<le> cross_encoder_top_n default_configuration
   \<and> cross_encoder_rerank default_configuration example_predict ''q'' two_fetched
       = ([CrossEncoder_init ''cross-encoder/ms-marco-MiniLM-L-6-v2'',
           Predict [(''q'', ''doc a''), (''q'', ''doc b'')]],
          Inr [repo_b, repo_a])"
proof -
  have r: "cross_encoder_rerank default_configuration example_predict ''q'' two_fetched
       = ([CrossEncoder_init ''cross-encoder/ms-marco-MiniLM-L-6-v2'',
           Predict [(''q'', ''doc a''), (''q'', ''doc b'')]],
          Inr [repo_b, repo_a])"
    by (simp add: cross_encoder_rerank_def cross_encoder_rerank_func_def Let_def
          sorted_by_cross_encoder_score_def sorted_reverse_def slice_to_def example_predict_def
          default_configuration_def two_fetched_def fetched_def repo_a_def repo_b_def)
  show ?thesis
    using cross_encoder_rerank_postcondition
            [of example_predict "''q''" two_fetched default_configuration] r
    by (simp add: example_predict_def default_configuration_def)
qed

section \<open>The stages on an empty candidate list\<close>

lemma assign_scores_Nil: "assign_scores [] scores = []"
  by (cases scores) simp_all

text \<open>
  Claim C2. On an empty list dense retrieval, the filter and the activity stage return
  the empty list, and none of them calls \<open>encode\<close>, the index or the hosting service.
  The reranker returns the empty list too, but it does call \<open>predict\<close>, on an empty
  list of pairs; and the fusion stage does not return: \<open>min\<close> of the empty score list
  raises \<open>ValueError\<close>.
\<close>

theorem empty_input_stages:
  "dense_retrieval cfg encode search q []
     = ([SentenceTransformer_init (sem_model_name cfg)], Inr [])
   \<and> cross_encoder_rerank cfg predict q []
       = ([CrossEncoder_init (cross_encoder_model_name cfg), Predict []], Inr [])
   \<and> filter_candidates cfg [] = []
   \<and> analyze_activity world [] = ([], [], None)
   \<and> final_ranking [] = Inl ValueError"
  by (simp add: dense_retrieval_def cross_encoder_rerank_def cross_encoder_rerank_func_def
        sorted_by_cross_encoder_score_def sorted_reverse_def slice_to_def
        filter_candidates_def final_ranking_def bind_err_def Let_def assign_scores_Nil)

end
